theory Spec2Isabelle
  imports Main "HOL-Library.Word"
begin

section \<open>Strings, buffers and numbers of the JavaScript runtime\<close>

text \<open>
  A JavaScript string is a sequence of UTF-16 code units, a Node \<open>Buffer\<close> a sequence of
  bytes. String literals of the source that are plain ASCII are written \<open>js ''...''\<close>.
\<close>

type_synonym jsstring = "16 word list"

type_synonym Buffer = "8 word list"

definition js :: "string \<Rightarrow> jsstring" where
  "js s = map of_char s"

text \<open>
  \<open>String.prototype.trim\<close> removes the ECMAScript white space and line terminator code
  units from both ends.
\<close>

definition isWhiteSpace :: "16 word \<Rightarrow> bool" where
  "isWhiteSpace c =
     (c = 0x9 \<or> c = 0xA \<or> c = 0xB \<or> c = 0xC \<or> c = 0xD \<or> c = 0x20 \<or> c = 0xA0
      \<or> c = 0x1680 \<or> (0x2000 \<le> c \<and> c \<le> 0x200A) \<or> c = 0x2028 \<or> c = 0x2029
      \<or> c = 0x202F \<or> c = 0x205F \<or> c = 0x3000 \<or> c = 0xFEFF)"

definition trim :: "jsstring \<Rightarrow> jsstring" where
  "trim s = rev (dropWhile isWhiteSpace (rev (dropWhile isWhiteSpace s)))"

text \<open>
  \<open>s.split(c)\<close> for a separator of one code unit: the pieces between the separators,
  always at least one piece (\<open>''''.split(c)\<close> is \<open>['''']\<close>).
\<close>

fun split_str :: "16 word \<Rightarrow> jsstring \<Rightarrow> jsstring list" where
  "split_str c [] = [[]]"
| "split_str c (x # xs) =
     (if x = c then [] # split_str c xs
      else (x # hd (split_str c xs)) # tl (split_str c xs))"

section \<open>Configuration constants\<close>

definition LINE_RETENTION_COUNT :: int where
  "LINE_RETENTION_COUNT = 1000"

definition LOG_RETENTION_WINDOW_MS :: int where
  "LOG_RETENTION_WINDOW_MS = 15 * 60 * 1000"

definition LOG_CLEANUP_INTERVAL_MS :: int where
  "LOG_CLEANUP_INTERVAL_MS = 30 * 1000"

definition STARTUP_DELAY_MS :: nat where
  "STARTUP_DELAY_MS = 1000"

section \<open>ThrottledOutputStream\<close>

text \<open>
  The transform stream that sits between a child's stdout/stderr and the console. Its
  state is the fields the constructor sets, whether the interval timer is armed, and the
  chunks handed downstream by \<open>this.push\<close> (the readable side of the transform).
  Numbers are integers: line counts and \<open>Date.now()\<close> milliseconds.
\<close>

record LogEntry =
  timestamp :: int
  line :: jsstring

record ThrottleOptions =
  opt_maxLines :: "int option"
  opt_retentionWindowMs :: "int option"
  opt_cleanupIntervalMs :: "int option"

record ThrottledOutputStream =
  lineCount :: int
  maxLines :: int
  retentionWindowMs :: int
  cleanupIntervalMs :: int
  buffer :: "LogEntry list"
  cleanupTimer :: bool
  pushed :: "Buffer list"

text \<open>
  The constructor. \<open>options.maxLines || LINE_RETENTION_COUNT\<close> replaces a missing or
  zero count by the default and lets every other number through, a negative one too;
  the two durations use \<open>??\<close> and then fall back to the default unless positive.
\<close>

definition newThrottledOutputStream :: "ThrottleOptions \<Rightarrow> ThrottledOutputStream" where
  "newThrottledOutputStream options =
     (let windowMs = (case opt_retentionWindowMs options of
                        None \<Rightarrow> LOG_RETENTION_WINDOW_MS | Some w \<Rightarrow> w);
          cleanupMs = (case opt_cleanupIntervalMs options of
                        None \<Rightarrow> LOG_CLEANUP_INTERVAL_MS | Some c \<Rightarrow> c)
      in \<lparr> lineCount = 0,
           maxLines = (case opt_maxLines options of
                         None \<Rightarrow> LINE_RETENTION_COUNT
                       | Some n \<Rightarrow> if n = 0 then LINE_RETENTION_COUNT else n),
           retentionWindowMs = (if windowMs > 0 then windowMs else LOG_RETENTION_WINDOW_MS),
           cleanupIntervalMs = (if cleanupMs > 0 then cleanupMs else LOG_CLEANUP_INTERVAL_MS),
           buffer = [],
           cleanupTimer = True,
           pushed = [] \<rparr>)"

text \<open>
  \<open>pushEntry\<close>: append, count, and drop the oldest entry when the count is over the
  limit. \<open>Array.prototype.shift\<close> on an empty array leaves it empty, as \<open>tl\<close> does.
\<close>

definition pushEntry :: "ThrottledOutputStream \<Rightarrow> jsstring \<Rightarrow> int \<Rightarrow> ThrottledOutputStream" where
  "pushEntry s l ts =
     (let s1 = s\<lparr> buffer := buffer s @ [\<lparr> timestamp = ts, line = l \<rparr>],
                   lineCount := lineCount s + 1 \<rparr>
      in if lineCount s1 > maxLines s1
         then s1\<lparr> buffer := tl (buffer s1), lineCount := lineCount s1 - 1 \<rparr>
         else s1)"

text \<open>The \<open>while\<close> loop of \<open>pruneExpired\<close>, one entry per iteration.\<close>

function pruneLoop :: "int \<Rightarrow> ThrottledOutputStream \<Rightarrow> ThrottledOutputStream" where
  "pruneLoop cutoff s =
     (if length (buffer s) > 0 \<and> timestamp (hd (buffer s)) < cutoff
      then pruneLoop cutoff (s\<lparr> buffer := tl (buffer s), lineCount := lineCount s - 1 \<rparr>)
      else s)"
  by pat_completeness auto
termination
  by (relation "measure (\<lambda>(cutoff, s). length (buffer s))") auto

declare pruneLoop.simps [simp del]

definition pruneExpired :: "ThrottledOutputStream \<Rightarrow> int \<Rightarrow> ThrottledOutputStream" where
  "pruneExpired s now = pruneLoop (now - retentionWindowMs s) s"

text \<open>
  \<open>_transform(chunk, encoding, callback)\<close>. \<open>toString\<close> is \<open>Buffer.prototype.toString\<close>
  (the UTF-8 decoder of the runtime), \<open>now\<close> the value \<open>Date.now()\<close> returns in this call.
  A line is recorded when \<open>line.trim()\<close> is a non-empty string.
\<close>

definition transform ::
  "(Buffer \<Rightarrow> jsstring) \<Rightarrow> ThrottledOutputStream \<Rightarrow> int \<Rightarrow> Buffer \<Rightarrow> ThrottledOutputStream" where
  "transform toString s now chunk =
     (let lines = split_str 0xA (toString chunk);
          s1 = foldl (\<lambda>st l. if trim l \<noteq> [] then pushEntry st l now else st) s lines;
          s2 = pruneExpired s1 now
      in s2\<lparr> pushed := pushed s2 @ [chunk] \<rparr>)"

text \<open>
  Teardown: \<open>clearCleanupTimer\<close> cancels the interval timer if it is still there;
  \<open>_flush\<close> and \<open>_destroy\<close> call it and drop the buffer.
\<close>

definition clearCleanupTimer :: "ThrottledOutputStream \<Rightarrow> ThrottledOutputStream" where
  "clearCleanupTimer s = (if cleanupTimer s then s\<lparr> cleanupTimer := False \<rparr> else s)"

definition flush :: "ThrottledOutputStream \<Rightarrow> ThrottledOutputStream" where
  "flush s = (clearCleanupTimer s)\<lparr> buffer := [], lineCount := 0 \<rparr>"

text \<open>
  What happens to a channel over time: a chunk arrives (\<open>_transform\<close>), or the interval
  timer fires and runs \<open>pruneExpired(Date.now())\<close>, which it does only while it is armed.
  Every event carries the clock reading taken in it.
\<close>

datatype event = Ingest Buffer | Tick

fun step ::
  "(Buffer \<Rightarrow> jsstring) \<Rightarrow> ThrottledOutputStream \<Rightarrow> int \<times> event \<Rightarrow> ThrottledOutputStream" where
  "step toString s (now, Ingest chunk) = transform toString s now chunk"
| "step toString s (now, Tick) = (if cleanupTimer s then pruneExpired s now else s)"

definition run ::
  "(Buffer \<Rightarrow> jsstring) \<Rightarrow> ThrottledOutputStream \<Rightarrow> (int \<times> event) list \<Rightarrow> ThrottledOutputStream" where
  "run toString s evs = foldl (step toString) s evs"

fun chunks_of :: "(int \<times> event) list \<Rightarrow> Buffer list" where
  "chunks_of [] = []"
| "chunks_of ((now, Ingest chunk) # evs) = chunk # chunks_of evs"
| "chunks_of ((now, Tick) # evs) = chunks_of evs"

text \<open>A decoder to run examples with: one code unit per byte (Latin-1).\<close>

definition latin1 :: "Buffer \<Rightarrow> jsstring" where
  "latin1 b = map ucast b"

subsection \<open>The channel's invariants\<close>

text \<open>
  Two invariants carry the bounds. The first needs nothing of the clock: the count field
  is the length of the buffer, and the buffer is within the limit or empty. The second
  needs nothing of the limit: the entries are in time order and not from the future of
  the last clock reading \<open>t\<close>. \<open>same_cfg\<close> is the configuration a channel keeps for life:
  limit, window, and the armed timer.
\<close>

definition cnt_inv :: "ThrottledOutputStream \<Rightarrow> bool" where
  "cnt_inv s \<longleftrightarrow>
     lineCount s = int (length (buffer s)) \<and>
     (int (length (buffer s)) \<le> maxLines s \<or> buffer s = [])"

definition age_inv :: "int \<Rightarrow> ThrottledOutputStream \<Rightarrow> bool" where
  "age_inv t s \<longleftrightarrow>
     sorted (map timestamp (buffer s)) \<and> (\<forall>e \<in> set (buffer s). timestamp e \<le> t)"

definition same_cfg :: "ThrottledOutputStream \<Rightarrow> ThrottledOutputStream \<Rightarrow> bool" where
  "same_cfg s s' \<longleftrightarrow>
     maxLines s' = maxLines s \<and> retentionWindowMs s' = retentionWindowMs s \<and>
     cleanupTimer s' = cleanupTimer s"

section \<open>Console colour of a project\<close>

text \<open>
  The palette and the index computed in \<open>startProject\<close>:
  \<open>projectName.split('').reduce((acc, char) => acc + char.charCodeAt(0), 0)\<close>, then
  \<open>Math.abs\<close> and the remainder by the palette's length. \<open>split('')\<close> cuts the name
  into its code units. The sum stays far below \<open>2^53\<close> for every string the runtime
  can hold, so integer arithmetic is what the doubles compute.
\<close>

definition colors :: "jsstring list" where
  "colors = [js (CHR 0x1B # ''[32m''), js (CHR 0x1B # ''[33m''), js (CHR 0x1B # ''[34m''),
             js (CHR 0x1B # ''[35m''), js (CHR 0x1B # ''[36m''), js (CHR 0x1B # ''[90m''),
             js (CHR 0x1B # ''[94m''), js (CHR 0x1B # ''[96m'')]"

definition charCodeSum :: "jsstring \<Rightarrow> int" where
  "charCodeSum projectName = foldl (\<lambda>acc char. acc + int (unat char)) 0 projectName"

definition colorIndex :: "jsstring \<Rightarrow> nat" where
  "colorIndex projectName = nat (\<bar>charCodeSum projectName\<bar> mod int (length colors))"

definition color :: "jsstring \<Rightarrow> jsstring" where
  "color projectName = colors ! colorIndex projectName"

section \<open>Child processes and the operating system\<close>

text \<open>
  Time is counted in milliseconds on the clock of the event loop; a timer set for a delay
  fires when that delay has passed. What the operating system does with a spawned
  command is an input of the model: \<open>child_process.spawn\<close> either throws at once or
  returns a handle, and the handle stands for a process that will emit the listed events,
  each so many milliseconds after the spawn. \<open>Close\<close> carries the exit code (\<open>None\<close> when
  a signal ended the process), \<open>Error\<close> the message of an \<open>'error'\<close> event.
\<close>

datatype stdio_config = Inherit | Pipe

record SpawnOptions =
  cwd :: jsstring
  stdio :: stdio_config
  shell :: bool
  detached :: bool

datatype proc_event = StdoutData Buffer | StderrData Buffer | Close "int option" | Error jsstring

record ChildProcess =
  pid :: "nat option"
  events :: "(nat \<times> proc_event) list"

datatype spawn_result = SpawnThrows jsstring | Spawned ChildProcess

type_synonym os = "jsstring \<Rightarrow> jsstring list \<Rightarrow> SpawnOptions \<Rightarrow> nat \<Rightarrow> spawn_result"

text \<open>
  The calls the supervisor makes on processes and files, and the messages it prints.
  A message names the \<open>console.log\<close> or \<open>console.error\<close> statement and carries the values
  interpolated into it; \<open>cmd_kind\<close> is the \<open>type\<close> argument of \<open>executeCommand\<close>, the
  project's name with the label of the global or of the project's own pre-commands.
\<close>

datatype syscall =
    SpawnCall jsstring "jsstring list" SpawnOptions
  | Unref
  | Kill "nat option"
  | CreateWriteStream jsstring jsstring jsstring

datatype cmd_kind = GlobalPreCommand jsstring | ProjectPreCommand jsstring

datatype message =
    MsgProjectNotFound jsstring
  | MsgPathMissing jsstring
  | MsgStartFlow jsstring
  | MsgCommand cmd_kind jsstring
  | MsgBackground jsstring
  | MsgExitCode cmd_kind "int option"
  | MsgSpawnError cmd_kind jsstring
  | MsgTimeout cmd_kind
  | MsgMaybeRunning jsstring
  | MsgExecFailed jsstring
  | MsgGlobalPre jsstring
  | MsgProjectPre jsstring
  | MsgStartCommand jsstring jsstring
  | MsgLogFile jsstring
  | MsgTailHint jsstring
  | MsgStarted jsstring
  | MsgLaunching jsstring
  | MsgLaunchOk jsstring
  | MsgLaunchFailed jsstring
  | MsgLaunchException jsstring jsstring

section \<open>executeCommand\<close>

definition TIMEOUT :: nat where
  "TIMEOUT = 10000"

definition endsWith :: "jsstring \<Rightarrow> 16 word \<Rightarrow> bool" where
  "endsWith s c = (s \<noteq> [] \<and> last s = c)"

text \<open>
  What \<open>Promise.race\<close> yields: the value the command's promise resolved with, the string
  \<open>'timeout'\<close>, or the rejection the \<open>catch\<close> block receives.
\<close>

datatype race_value = Resolved "int option" | TimedOut | Rejected jsstring

record exec_result =
  resumesAt :: nat
  raceValue :: race_value
  exec_console :: "(nat \<times> message) list"
  exec_calls :: "(nat \<times> syscall) list"

text \<open>
  The first \<open>'close'\<close> or \<open>'error'\<close> event settles the command's promise: with the exit
  code, or with 1.
\<close>

fun settle :: "(nat \<times> proc_event) list \<Rightarrow> (nat \<times> int option) option" where
  "settle [] = None"
| "settle ((d, Close code) # evs) = Some (d, code)"
| "settle ((d, Error msg) # evs) = Some (d, Some 1)"
| "settle ((d, StdoutData data) # evs) = settle evs"
| "settle ((d, StderrData data) # evs) = settle evs"

text \<open>What the two listeners of a foreground command print, whenever their event comes.\<close>

fun commandListeners :: "cmd_kind \<Rightarrow> nat \<Rightarrow> nat \<times> proc_event \<Rightarrow> (nat \<times> message) list" where
  "commandListeners type t0 (d, Close code) =
     (if code = Some 0 then [] else [(t0 + d, MsgExitCode type code)])"
| "commandListeners type t0 (d, Error msg) = [(t0 + d, MsgSpawnError type msg)]"
| "commandListeners type t0 (d, StdoutData data) = []"
| "commandListeners type t0 (d, StderrData data) = []"

text \<open>
  \<open>executeCommand(command, type)\<close>, called at time \<open>t0\<close> inside \<open>startProject\<close>, whose
  \<open>projectPath\<close> it closes over. The result says when the \<open>await\<close> on the race resumes and
  with what, and lists every message and call with the time at which it happens; the
  lists are in the order of the statements, not of the times. The timer of the timeout
  promise is never cleared, so its callback prints its warning at \<open>t0 + TIMEOUT\<close> in every
  case. A command that settles in the same millisecond as the timer loses to the timer,
  whose phase comes first in the event loop.
\<close>

definition executeCommand :: "os \<Rightarrow> jsstring \<Rightarrow> nat \<Rightarrow> jsstring \<Rightarrow> cmd_kind \<Rightarrow> exec_result" where
  "executeCommand os projectPath t0 command type =
     (let isBackgroundCommand = endsWith (trim command) 0x26;
          actualCommand = (if isBackgroundCommand then trim (butlast (trim command)) else command);
          cmd = hd (split_str 0x20 actualCommand);
          args = tl (split_str 0x20 actualCommand);
          options = \<lparr> cwd = projectPath, stdio = Inherit, shell = True,
                      detached = isBackgroundCommand \<rparr>;
          announce = (t0, MsgCommand type command);
          call = (t0, SpawnCall cmd args options);
          timer = (t0 + TIMEOUT, MsgTimeout type)
      in case os cmd args options t0 of
           SpawnThrows msg \<Rightarrow>
             \<lparr> resumesAt = t0, raceValue = Rejected msg,
               exec_console = [announce, timer, (t0, MsgExecFailed msg)],
               exec_calls = [call] \<rparr>
         | Spawned result \<Rightarrow>
             if isBackgroundCommand
             then \<lparr> resumesAt = t0, raceValue = Resolved (Some 0),
                    exec_console = [announce, (t0, MsgBackground command), timer],
                    exec_calls = [call, (t0, Unref)] \<rparr>
             else
               (let listeners = concat (map (commandListeners type t0) (events result));
                    timedOut = \<lparr> resumesAt = t0 + TIMEOUT, raceValue = TimedOut,
                                 exec_console = announce # listeners @
                                   [timer, (t0 + TIMEOUT, MsgMaybeRunning command)],
                                 exec_calls = [call] \<rparr>
                in case settle (events result) of
                     None \<Rightarrow> timedOut
                   | Some (d, code) \<Rightarrow>
                       if d < TIMEOUT
                       then \<lparr> resumesAt = t0 + d, raceValue = Resolved code,
                              exec_console = announce # listeners @ [timer],
                              exec_calls = [call] \<rparr>
                       else timedOut))"

text \<open>
  The two \<open>for\<close> loops of \<open>startProject\<close> over pre-commands: each command is awaited
  before the next is started, so the next starts when the previous one's race resumes.
\<close>

fun executeAll ::
  "os \<Rightarrow> jsstring \<Rightarrow> cmd_kind \<Rightarrow> nat \<Rightarrow> jsstring list
     \<Rightarrow> nat \<times> (nat \<times> message) list \<times> (nat \<times> syscall) list" where
  "executeAll os projectPath type t [] = (t, [], [])"
| "executeAll os projectPath type t (preCommand # rest) =
     (let r = executeCommand os projectPath t preCommand type;
          (t', con, cal) = executeAll os projectPath type (resumesAt r) rest
      in (t', exec_console r @ con, exec_calls r @ cal))"


section \<open>Configuration and start options\<close>

record ProjectConfig =
  proj_path :: jsstring
  proj_command :: jsstring
  preCommands :: "jsstring list option"

record Config =
  projects :: "jsstring \<rightharpoonup> ProjectConfig"
  platforms :: "jsstring \<rightharpoonup> jsstring list"
  globalPreCommands :: "jsstring list option"
  cfg_logBufferWindowMs :: "int option"

text \<open>
  \<open>--log-mode=\<close> takes any text; the three modes of \<open>LOG_CONFIG.MODES\<close> are the ones the
  code compares with.
\<close>

datatype log_mode = CONSOLE | FILE | BOTH | OtherMode jsstring

record StartOptions =
  logMode :: log_mode
  logDir :: jsstring
  platformName :: jsstring
  logBufferWindowMs :: "int option"

text \<open>
  What \<open>startProject\<close> asks of the runtime: \<open>fs.existsSync\<close>, the text
  \<open>new Date().toISOString()\<close> gives at a time, \<open>Buffer.prototype.toString\<close>, and
  \<open>child_process.spawn\<close>.
\<close>

record runtime =
  existsSync :: "jsstring \<Rightarrow> bool"
  isoString :: "nat \<Rightarrow> jsstring"
  decode :: "Buffer \<Rightarrow> jsstring"
  spawn :: os

section \<open>The log file of a run\<close>

text \<open>A number in a template literal is printed in decimal, \<open>null\<close> as the word.\<close>

function natToString :: "nat \<Rightarrow> jsstring" where
  "natToString n =
     (if n < 10 then [of_nat (48 + n)]
      else natToString (n div 10) @ [of_nat (48 + n mod 10)])"
  by pat_completeness auto
termination
  by (relation "measure (\<lambda>n. n)") auto

declare natToString.simps [simp del]

definition intToString :: "int \<Rightarrow> jsstring" where
  "intToString i = (if i < 0 then 0x2D # natToString (nat (- i)) else natToString (nat i))"

definition codeToString :: "int option \<Rightarrow> jsstring" where
  "codeToString code = (case code of None \<Rightarrow> js ''null'' | Some n \<Rightarrow> intToString n)"

text \<open>
  The labels the source writes into the file are Chinese words; they are given here by
  their code units: the label of the start line (U+9879 U+76EE U+542F U+52A8, "project
  start"), of the command line (U+547D U+4EE4), of the path line (U+8DEF U+5F84) and of
  the exit line ("process exited, exit code", with a full-width comma).
\<close>

definition label_started :: jsstring where
  "label_started = [0x9879, 0x76EE, 0x542F, 0x52A8]"

definition label_command :: jsstring where
  "label_command = [0x547D, 0x4EE4]"

definition label_path :: jsstring where
  "label_path = [0x8DEF, 0x5F84]"

definition label_exited :: jsstring where
  "label_exited = [0x8FDB, 0x7A0B, 0x9000, 0x51FA, 0xFF0C, 0x9000, 0x51FA, 0x7801]"

definition rule80 :: jsstring where
  "rule80 = replicate 80 0x3D"

text \<open>The five \<open>logStream.write\<close> calls made when the stream is opened.\<close>

definition logBanner :: "runtime \<Rightarrow> nat \<Rightarrow> jsstring \<Rightarrow> jsstring \<Rightarrow> jsstring \<Rightarrow> jsstring list" where
  "logBanner rt t projectName command projectPath =
     [ [0xA] @ rule80 @ [0xA],
       js ''['' @ isoString rt t @ js ''] '' @ label_started @ js '': '' @ projectName @ [0xA],
       label_command @ js '': '' @ command @ [0xA],
       label_path @ js '': '' @ projectPath @ [0xA],
       rule80 @ [0xA, 0xA] ]"

text \<open>The one write of the \<open>'close'\<close> listener, made at time \<open>t\<close>.\<close>

definition exitLine :: "runtime \<Rightarrow> nat \<Rightarrow> int option \<Rightarrow> jsstring" where
  "exitLine rt t code =
     [0xA] @ js ''['' @ isoString rt t @ js ''] '' @ label_exited @ js '': ''
       @ codeToString code @ [0xA]"

text \<open>
  What the listeners on the main process write to the log stream over its life, from
  the spawn at time \<open>t\<close>. They are registered inside the branch for the modes \<open>file\<close>
  and \<open>both\<close>: the two \<open>'data'\<close> listeners exist in \<open>both\<close> mode only, the \<open>'close'\<close>
  listener writes the exit line and ends the stream. \<open>startProject\<close> puts no \<open>'error'\<close>
  listener on the main process, so an \<open>'error'\<close> event is an uncaught exception: the
  supervisor ends there and nothing more is written.
\<close>

fun logStreamWrites :: "runtime \<Rightarrow> log_mode \<Rightarrow> nat \<Rightarrow> (nat \<times> proc_event) list \<Rightarrow> jsstring list" where
  "logStreamWrites rt mode t [] = []"
| "logStreamWrites rt mode t ((d, StdoutData data) # evs) =
     (if mode = BOTH then [js ''[STDOUT] '' @ decode rt data] else [])
     @ logStreamWrites rt mode t evs"
| "logStreamWrites rt mode t ((d, StderrData data) # evs) =
     (if mode = BOTH then [js ''[STDERR] '' @ decode rt data] else [])
     @ logStreamWrites rt mode t evs"
| "logStreamWrites rt mode t ((d, Close code) # evs) = [exitLine rt (t + d) code]"
| "logStreamWrites rt mode t ((d, Error msg) # evs) = []"

text \<open>
  How the supervision of a main process ends: it is still running, its \<open>'close'\<close> was
  handled, or an \<open>'error'\<close> event of it ended the supervisor.
\<close>

datatype supervision = Running | Closed "int option" | Crashed jsstring

fun supervisionEnd :: "(nat \<times> proc_event) list \<Rightarrow> supervision" where
  "supervisionEnd [] = Running"
| "supervisionEnd ((d, StdoutData data) # evs) = supervisionEnd evs"
| "supervisionEnd ((d, StderrData data) # evs) = supervisionEnd evs"
| "supervisionEnd ((d, Close code) # evs) = Closed code"
| "supervisionEnd ((d, Error msg) # evs) = Crashed msg"


section \<open>startProject\<close>

datatype 'a completion = Returns 'a | Throws jsstring

record start_result =
  result :: "ChildProcess option completion"
  finishedAt :: nat
  console :: "(nat \<times> message) list"
  calls :: "(nat \<times> syscall) list"
  logWrites :: "jsstring list"
  throttles :: "(ThrottledOutputStream \<times> ThrottledOutputStream) option"

text \<open>
  One of the two blocks that run a list of pre-commands: skipped when the list is
  missing or empty, announced otherwise.
\<close>

definition preCommandBlock ::
  "os \<Rightarrow> jsstring \<Rightarrow> cmd_kind \<Rightarrow> message \<Rightarrow> nat \<Rightarrow> jsstring list option
     \<Rightarrow> nat \<times> (nat \<times> message) list \<times> (nat \<times> syscall) list" where
  "preCommandBlock os projectPath type heading t commands =
     (case commands of
        None \<Rightarrow> (t, [], [])
      | Some cs \<Rightarrow>
          if length cs > 0
          then (let (t', con, cal) = executeAll os projectPath type t cs
                in (t', (t, heading) # con, cal))
          else (t, [], []))"

text \<open>
  \<open>startProject(projectName, config, options)\<close>, called at time \<open>t0\<close>. \<open>null\<close> is \<open>None\<close>;
  an exception of the main \<open>spawn\<close> leaves the function as \<open>Throws\<close>. The log directory is
  taken to be creatable. The message that the process has started is printed by a timer
  100 ms after the return.
\<close>

definition startProject ::
  "runtime \<Rightarrow> jsstring \<Rightarrow> Config \<Rightarrow> StartOptions \<Rightarrow> nat \<Rightarrow> start_result" where
  "startProject rt projectName config options t0 =
     (case projects config projectName of
        None \<Rightarrow>
          \<lparr> result = Returns None, finishedAt = t0,
            console = [(t0, MsgProjectNotFound projectName)], calls = [],
            logWrites = [], throttles = None \<rparr>
      | Some projectConfig \<Rightarrow>
          (let projectPath = proj_path projectConfig in
           if \<not> existsSync rt projectPath
           then \<lparr> result = Returns None, finishedAt = t0,
                  console = [(t0, MsgPathMissing projectPath)], calls = [],
                  logWrites = [], throttles = None \<rparr>
           else
             (let (t1, con1, cal1) =
                    preCommandBlock (spawn rt) projectPath (GlobalPreCommand projectName)
                      (MsgGlobalPre projectName) t0 (globalPreCommands config);
                  (t2, con2, cal2) =
                    preCommandBlock (spawn rt) projectPath (ProjectPreCommand projectName)
                      (MsgProjectPre projectName) t1 (preCommands projectConfig);
                  command = proj_command projectConfig;
                  cmd = hd (split_str 0x20 command);
                  args = tl (split_str 0x20 command);
                  stdioConfig = (if logMode options = FILE then Inherit else Pipe);
                  spawnOptions = \<lparr> cwd = projectPath, stdio = stdioConfig, shell = True,
                                   detached = False \<rparr>;
                  before = (t0, MsgStartFlow projectName) # con1 @ con2 @
                             [(t2, MsgStartCommand projectName command)];
                  spawned = cal1 @ cal2 @ [(t2, SpawnCall cmd args spawnOptions)];
                  toConsole = (logMode options = CONSOLE \<or> logMode options = BOTH);
                  toFile = (logMode options = FILE \<or> logMode options = BOTH);
                  throttleOptions =
                    \<lparr> opt_maxLines = None, opt_retentionWindowMs = logBufferWindowMs options,
                      opt_cleanupIntervalMs = None \<rparr>
              in case spawn rt cmd args spawnOptions t2 of
                   SpawnThrows msg \<Rightarrow>
                     \<lparr> result = Throws msg, finishedAt = t2, console = before, calls = spawned,
                       logWrites = [], throttles = None \<rparr>
                 | Spawned process \<Rightarrow>
                     \<lparr> result = Returns (Some process), finishedAt = t2,
                       console = before
                         @ (if logMode options = FILE
                            then [(t2, MsgLogFile projectName), (t2, MsgTailHint projectName)]
                            else [])
                         @ [(t2 + 100, MsgStarted projectName)],
                       calls = spawned
                         @ (if toFile
                            then [(t2, CreateWriteStream projectName (platformName options)
                                         (logDir options))]
                            else []),
                       logWrites = (if toFile
                                    then logBanner rt t2 projectName command projectPath
                                    else []),
                       throttles = (if toConsole
                                    then Some (newThrottledOutputStream throttleOptions,
                                               newThrottledOutputStream throttleOptions)
                                    else None) \<rparr>)))"


section \<open>Launching a platform\<close>

record Args =
  arg_logMode :: log_mode
  arg_logDir :: jsstring
  arg_logBufferWindowMs :: "int option"

text \<open>\<open>a || b || null\<close> on numbers that may be missing: zero counts as missing.\<close>

definition orNull :: "int option \<Rightarrow> int option \<Rightarrow> int option" where
  "orNull a b =
     (if a \<noteq> None \<and> a \<noteq> Some 0 then a
      else if b \<noteq> None \<and> b \<noteq> Some 0 then b
      else None)"

datatype 'a settled = Fulfilled 'a | RejectedWith jsstring

record start_promise =
  startedAt :: nat
  settledAs :: "(jsstring \<times> ChildProcess) option settled"
  announced :: "(nat \<times> message) list"
  started :: start_result

text \<open>
  The async callback of \<open>projectsToStart.map\<close>: all callbacks are entered at
  \<open>batchStart\<close>, each sets its own timer of \<open>index * STARTUP_DELAY_MS\<close> and calls
  \<open>startProject\<close> when the timer fires. It prints that the launch begins, and after
  \<open>startProject\<close> has returned whether it gave a process; an exception passes through
  it, and \<open>main\<close> reports it once all launches have settled.
\<close>

definition startPromise ::
  "runtime \<Rightarrow> Config \<Rightarrow> Args \<Rightarrow> jsstring \<Rightarrow> nat \<Rightarrow> nat \<Rightarrow> jsstring \<Rightarrow> start_promise" where
  "startPromise rt config args platform batchStart index project =
     (let t = batchStart + index * STARTUP_DELAY_MS;
          r = startProject rt project config
                \<lparr> logMode = arg_logMode args, logDir = arg_logDir args, platformName = platform,
                  logBufferWindowMs =
                    orNull (arg_logBufferWindowMs args) (cfg_logBufferWindowMs config) \<rparr> t
      in \<lparr> startedAt = t,
           settledAs = (case result r of
                          Returns (Some proc) \<Rightarrow> Fulfilled (Some (project, proc))
                        | Returns None \<Rightarrow> Fulfilled None
                        | Throws reason \<Rightarrow> RejectedWith reason),
           announced = (t, MsgLaunching project) #
                       (case result r of
                          Returns (Some proc) \<Rightarrow> [(finishedAt r, MsgLaunchOk project)]
                        | Returns None \<Rightarrow> [(finishedAt r, MsgLaunchFailed project)]
                        | Throws reason \<Rightarrow> []),
           started = r \<rparr>)"

definition startPromises ::
  "runtime \<Rightarrow> Config \<Rightarrow> Args \<Rightarrow> jsstring \<Rightarrow> nat \<Rightarrow> jsstring list \<Rightarrow> start_promise list" where
  "startPromises rt config args platform batchStart projectsToStart =
     map (\<lambda>(index, project). startPromise rt config args platform batchStart index project)
         (enumerate 0 projectsToStart)"

text \<open>
  After \<open>Promise.allSettled\<close>: the exceptions reported, the handles of the launches
  that were fulfilled with a value, the two numbers of the statistics line, and the names
  printed as failed. \<open>main\<close> returns before the statistics when no process was started.
\<close>

definition reportedExceptions ::
  "((jsstring \<times> ChildProcess) option settled \<times> jsstring) list \<Rightarrow> message list" where
  "reportedExceptions results =
     concat (map (\<lambda>(r, project). case r of
                     RejectedWith reason \<Rightarrow> [MsgLaunchException project reason]
                   | Fulfilled v \<Rightarrow> []) results)"

fun succeeded :: "(jsstring \<times> ChildProcess) option settled \<Rightarrow> bool" where
  "succeeded (Fulfilled (Some v)) = True"
| "succeeded (Fulfilled None) = False"
| "succeeded (RejectedWith reason) = False"

fun handles :: "(jsstring \<times> ChildProcess) option settled list \<Rightarrow> ChildProcess list" where
  "handles [] = []"
| "handles (Fulfilled (Some (project, proc)) # rs) = proc # handles rs"
| "handles (Fulfilled None # rs) = handles rs"
| "handles (RejectedWith reason # rs) = handles rs"

record LaunchReport =
  processes :: "ChildProcess list"
  successCount :: nat
  projectCount :: nat
  failedProjects :: "jsstring list"

definition launchReport ::
  "runtime \<Rightarrow> Config \<Rightarrow> Args \<Rightarrow> jsstring \<Rightarrow> nat \<Rightarrow> jsstring list \<Rightarrow> LaunchReport option" where
  "launchReport rt config args platform batchStart projectsToStart =
     (let results = map settledAs
                      (startPromises rt config args platform batchStart projectsToStart)
      in if length (handles results) = 0 then None
         else Some \<lparr> processes = handles results,
                     successCount = length (filter succeeded results),
                     projectCount = length projectsToStart,
                     failedProjects =
                       map snd (filter (\<lambda>(r, project). \<not> succeeded r)
                                  (zip results projectsToStart)) \<rparr>)"

text \<open>The handler of the termination signal kills every tracked handle.\<close>

definition shutdown :: "ChildProcess list \<Rightarrow> syscall list" where
  "shutdown procs = map (\<lambda>proc. Kill (pid proc)) procs"

section \<open>Memory sampling\<close>

text \<open>
  The byte counts are JavaScript numbers, which may be \<open>NaN\<close>: \<open>parseInt\<close> yields it for
  text without a leading number, and sums and products pass it on. The numbers that are
  not \<open>NaN\<close> are integers here; the doubles of the runtime are exact on them below
  \<open>2^53\<close>.
\<close>

datatype jsnum = Num int | NaN

fun jsadd :: "jsnum \<Rightarrow> jsnum \<Rightarrow> jsnum" where
  "jsadd (Num a) (Num b) = Num (a + b)"
| "jsadd (Num a) NaN = NaN"
| "jsadd NaN b = NaN"

fun jsmul :: "jsnum \<Rightarrow> jsnum \<Rightarrow> jsnum" where
  "jsmul (Num a) (Num b) = Num (a * b)"
| "jsmul (Num a) NaN = NaN"
| "jsmul NaN b = NaN"

text \<open>\<open>x > n\<close>; every comparison with \<open>NaN\<close> is false.\<close>

fun jsgt :: "jsnum \<Rightarrow> int \<Rightarrow> bool" where
  "jsgt (Num a) n = (a > n)"
| "jsgt NaN n = False"

text \<open>
  \<open>parseInt(s, 10)\<close>: leading white space is skipped, a sign is read, then the longest
  run of decimal digits; \<open>NaN\<close> when there is no digit.
\<close>

definition isDigit :: "16 word \<Rightarrow> bool" where
  "isDigit c = (0x30 \<le> c \<and> c \<le> 0x39)"

definition digitsValue :: "jsstring \<Rightarrow> int" where
  "digitsValue z = foldl (\<lambda>acc c. 10 * acc + (int (unat c) - 48)) 0 z"

definition parseInt :: "jsstring \<Rightarrow> jsnum" where
  "parseInt s =
     (let S = dropWhile isWhiteSpace s;
          negative = (S \<noteq> [] \<and> hd S = 0x2D);
          S1 = (if S \<noteq> [] \<and> (hd S = 0x2D \<or> hd S = 0x2B) then tl S else S);
          Z = takeWhile isDigit S1
      in if Z = [] then NaN
         else Num (if negative then - digitsValue Z else digitsValue Z))"

text \<open>
  The two commands \<open>getChildProcessMemory\<close> runs through \<open>exec\<close>, by platform, and what
  the callback of \<open>exec\<close> receives: an error, or the standard output.
\<close>

datatype query = PsRss nat | WmicWorkingSet nat

datatype exec_out = ExecError | ExecOk jsstring

definition getChildProcessMemory :: "bool \<Rightarrow> (query \<Rightarrow> exec_out) \<Rightarrow> nat \<Rightarrow> jsnum" where
  "getChildProcessMemory win32 exec p =
     (if \<not> win32
      then (case exec (PsRss p) of
              ExecError \<Rightarrow> Num 0
            | ExecOk stdout \<Rightarrow> jsmul (parseInt (trim stdout)) (Num 1024))
      else (case exec (WmicWorkingSet p) of
              ExecError \<Rightarrow> Num 0
            | ExecOk stdout \<Rightarrow>
                (let lines = split_str 0xA (trim stdout)
                 in if length lines < 2 then Num 0
                    else (let bytes = parseInt (trim (lines ! 1))
                          in if bytes = NaN \<or> bytes = Num 0 then Num 0 else bytes))))"

text \<open>
  The loop of \<open>getTotalChildProcessesMemory\<close>; \<open>proc && proc.pid\<close> skips a handle without
  a pid (and a pid of 0).
\<close>

definition getTotalChildProcessesMemory ::
  "bool \<Rightarrow> (query \<Rightarrow> exec_out) \<Rightarrow> ChildProcess list \<Rightarrow> jsnum" where
  "getTotalChildProcessesMemory win32 exec procs =
     foldl (\<lambda>totalMemory proc.
              case pid proc of
                None \<Rightarrow> totalMemory
              | Some p \<Rightarrow> if p = 0 then totalMemory
                          else jsadd totalMemory (getChildProcessMemory win32 exec p))
           (Num 0) procs"

datatype mem_status = Normal | Warning | Danger

record MemorySample =
  parentRss :: int
  childMemory :: jsnum
  totalMemory :: jsnum
  status :: mem_status

text \<open>
  One tick of \<open>memoryMonitor\<close>, with the resident size \<open>process.memoryUsage().rss\<close> of the
  supervisor: the total, and the colour chosen by the two thresholds of 50 MB and 100 MB.
\<close>

definition memoryMonitor ::
  "bool \<Rightarrow> (query \<Rightarrow> exec_out) \<Rightarrow> int \<Rightarrow> ChildProcess list \<Rightarrow> MemorySample" where
  "memoryMonitor win32 exec rss procs =
     (let childMem = getTotalChildProcessesMemory win32 exec procs;
          total = jsadd (Num rss) childMem;
          totalThresholdWarning = 50 * 1024 * 1024;
          totalThresholdDanger = 100 * 1024 * 1024;
          status1 = (if jsgt total totalThresholdWarning then Warning else Normal);
          status2 = (if jsgt total totalThresholdDanger then Danger else status1)
      in \<lparr> parentRss = rss, childMemory = childMem, totalMemory = total, status = status2 \<rparr>)"

text \<open>
  The terms of the specification: the pids of the tracked handles, and the sum of a list
  of numbers.
\<close>

fun trackedPids :: "ChildProcess list \<Rightarrow> nat list" where
  "trackedPids [] = []"
| "trackedPids (proc # procs) =
     (case pid proc of
        None \<Rightarrow> trackedPids procs
      | Some p \<Rightarrow> if p = 0 then trackedPids procs else p # trackedPids procs)"

fun jssum :: "jsnum list \<Rightarrow> jsnum" where
  "jssum [] = Num 0"
| "jssum (x # xs) = jsadd x (jssum xs)"

text \<open>
  The scenario of the specification on a Unix system: \<open>ps\<close> reports 10240 KB for the
  process 101 and 15360 KB for the process 102, and fails for every other pid.
\<close>

definition example_exec :: "query \<Rightarrow> exec_out" where
  "example_exec q =
     (if q = PsRss 101 then ExecOk (js '' 10240'' @ [0xA])
      else if q = PsRss 102 then ExecOk (js '' 15360'' @ [0xA])
      else ExecError)"

section \<open>An example installation\<close>

text \<open>
  The scenario of the specification: the platform \<open>web\<close> is the projects \<open>api\<close> and
  \<open>ui\<close>; the directory of \<open>api\<close> does not exist, the one of \<open>ui\<close> does. Every spawned
  process prints one chunk on each stream and exits with code 0 after 90 ms.
\<close>

definition example_config :: Config where
  "example_config =
     \<lparr> projects = [js ''api'' \<mapsto> \<lparr> proj_path = js ''/srv/api'', proj_command = js ''npm run serve'',
                                   preCommands = None \<rparr>,
                    js ''ui'' \<mapsto> \<lparr> proj_path = js ''/srv/ui'', proj_command = js ''npm run dev'',
                                  preCommands = None \<rparr>],
       platforms = [js ''web'' \<mapsto> [js ''api'', js ''ui'']],
       globalPreCommands = None,
       cfg_logBufferWindowMs = None \<rparr>"

definition example_process :: ChildProcess where
  "example_process =
     \<lparr> pid = Some 4711,
       events = [(40, StdoutData [0x6F, 0x6B, 0x0A]), (55, StderrData [0x21, 0x0A]),
                 (90, Close (Some 0))] \<rparr>"

definition example_runtime :: runtime where
  "example_runtime =
     \<lparr> existsSync = (\<lambda>p. p = js ''/srv/ui''),
       isoString = (\<lambda>t. js ''2025-10-28T10:00:00.000Z''),
       decode = latin1,
       spawn = (\<lambda>cmd args options t. Spawned example_process) \<rparr>"

text \<open>
  A second installation: both directories exist, \<open>api\<close> has a pre-command whose
  process never exits, and every main process prints one chunk on each stream and exits
  with code 137 after 90 ms.
\<close>

definition example_killed :: ChildProcess where
  "example_killed =
     \<lparr> pid = Some 4712,
       events = [(40, StdoutData [0x6F, 0x6B, 0x0A]), (55, StderrData [0x21, 0x0A]),
                 (90, Close (Some 137))] \<rparr>"

definition example_runtime2 :: runtime where
  "example_runtime2 =
     \<lparr> existsSync = (\<lambda>p. True),
       isoString = (\<lambda>t. js ''2025-10-28T10:00:00.000Z''),
       decode = latin1,
       spawn = (\<lambda>cmd args options t.
                  if cmd = js ''wait-for-db'' then Spawned \<lparr> pid = Some 4700, events = [] \<rparr>
                  else Spawned example_killed) \<rparr>"

definition example_config2 :: Config where
  "example_config2 =
     \<lparr> projects = [js ''api'' \<mapsto> \<lparr> proj_path = js ''/srv/api'', proj_command = js ''npm run serve'',
                                   preCommands = Some [js ''wait-for-db''] \<rparr>,
                    js ''ui'' \<mapsto> \<lparr> proj_path = js ''/srv/ui'', proj_command = js ''npm run dev'',
                                  preCommands = None \<rparr>],
       platforms = [js ''web'' \<mapsto> [js ''api'', js ''ui'']],
       globalPreCommands = None,
       cfg_logBufferWindowMs = None \<rparr>"

definition example_args :: "log_mode \<Rightarrow> Args" where
  "example_args mode =
     \<lparr> arg_logMode = mode, arg_logDir = js ''logs'', arg_logBufferWindowMs = None \<rparr>"

definition example_options :: "log_mode \<Rightarrow> StartOptions" where
  "example_options mode =
     \<lparr> logMode = mode, logDir = js ''logs'', platformName = js ''web'',
       logBufferWindowMs = None \<rparr>"

section \<open>Properties of the channel\<close>

lemma pruneLoop_True:
  "length (buffer s) > 0 \<and> timestamp (hd (buffer s)) < c \<Longrightarrow>
   pruneLoop c s = pruneLoop c (s\<lparr> buffer := tl (buffer s), lineCount := lineCount s - 1 \<rparr>)"
  by (subst pruneLoop.simps) simp

lemma pruneLoop_False:
  "\<not> (length (buffer s) > 0 \<and> timestamp (hd (buffer s)) < c) \<Longrightarrow> pruneLoop c s = s"
  by (subst pruneLoop.simps) auto

lemma pruneLoop_fields:
  "maxLines (pruneLoop c s) = maxLines s \<and> retentionWindowMs (pruneLoop c s) = retentionWindowMs s
   \<and> cleanupTimer (pruneLoop c s) = cleanupTimer s \<and> pushed (pruneLoop c s) = pushed s"
proof (induction c s rule: pruneLoop.induct)
  case (1 cutoff s)
  show ?case
  proof (cases "length (buffer s) > 0 \<and> timestamp (hd (buffer s)) < cutoff")
    case True
    from "1"[OF True] show ?thesis by (simp add: pruneLoop_True[OF True])
  next
    case False
    then show ?thesis by (simp add: pruneLoop_False)
  qed
qed

lemma pruneLoop_cnt: "cnt_inv s \<Longrightarrow> cnt_inv (pruneLoop c s)"
proof (induction c s rule: pruneLoop.induct)
  case (1 cutoff s)
  show ?case
  proof (cases "length (buffer s) > 0 \<and> timestamp (hd (buffer s)) < cutoff")
    case True
    then obtain e es where b: "buffer s = e # es" by (cases "buffer s") auto
    have "cnt_inv (s\<lparr> buffer := tl (buffer s), lineCount := lineCount s - 1 \<rparr>)"
      using "1.prems" b by (auto simp: cnt_inv_def)
    from "1.IH"[OF True this] show ?thesis by (simp add: pruneLoop_True[OF True])
  next
    case False
    with "1.prems" show ?thesis by (simp add: pruneLoop_False[OF False])
  qed
qed

lemma pruneLoop_age:
  "age_inv t s \<Longrightarrow>
   age_inv t (pruneLoop c s) \<and> (\<forall>e \<in> set (buffer (pruneLoop c s)). c \<le> timestamp e)"
proof (induction c s rule: pruneLoop.induct)
  case (1 cutoff s)
  show ?case
  proof (cases "length (buffer s) > 0 \<and> timestamp (hd (buffer s)) < cutoff")
    case True
    then obtain e es where b: "buffer s = e # es" by (cases "buffer s") auto
    have "age_inv t (s\<lparr> buffer := tl (buffer s), lineCount := lineCount s - 1 \<rparr>)"
      using "1.prems" b by (auto simp: age_inv_def)
    from "1.IH"[OF True this] show ?thesis by (simp add: pruneLoop_True[OF True])
  next
    case False
    have "\<forall>e \<in> set (buffer s). cutoff \<le> timestamp e"
    proof (cases "buffer s")
      case Nil
      then show ?thesis by simp
    next
      case (Cons e es)
      with False have "cutoff \<le> timestamp e" by simp
      moreover have "\<forall>x \<in> set es. timestamp e \<le> timestamp x"
        using "1.prems" Cons by (auto simp: age_inv_def)
      ultimately show ?thesis using Cons by auto
    qed
    with "1.prems" show ?thesis by (simp add: pruneLoop_False[OF False])
  qed
qed

lemma pushEntry_fields:
  "maxLines (pushEntry s l ts) = maxLines s \<and> retentionWindowMs (pushEntry s l ts) = retentionWindowMs s
   \<and> cleanupTimer (pushEntry s l ts) = cleanupTimer s \<and> pushed (pushEntry s l ts) = pushed s"
  by (simp add: pushEntry_def Let_def)

lemma pushEntry_cnt: "cnt_inv s \<Longrightarrow> cnt_inv (pushEntry s l ts)"
  by (auto simp: pushEntry_def Let_def cnt_inv_def)

lemma pushEntry_age:
  assumes "age_inv t s" and "t \<le> now"
  shows "age_inv now (pushEntry s l now)"
proof -
  let ?b = "buffer s @ [\<lparr> timestamp = now, line = l \<rparr>]"
  have srt: "sorted (map timestamp ?b)"
    using assms by (auto simp: age_inv_def sorted_append)
  have le: "\<forall>e \<in> set ?b. timestamp e \<le> now"
    using assms by (auto simp: age_inv_def)
  have srt_tl: "sorted (map timestamp (tl ?b))"
    using srt by (cases ?b) (simp_all del: map_append)
  have le_tl: "\<forall>e \<in> set (tl ?b). timestamp e \<le> now"
    using le by (metis list.set_sel(2) tl_Nil)
  show ?thesis
    using srt le srt_tl le_tl by (simp add: pushEntry_def Let_def age_inv_def)
qed

lemma lines_cfg:
  "same_cfg s (foldl (\<lambda>st l. if trim l \<noteq> [] then pushEntry st l now else st) s ls) \<and>
   pushed (foldl (\<lambda>st l. if trim l \<noteq> [] then pushEntry st l now else st) s ls) = pushed s"
proof (induction ls arbitrary: s)
  case Nil
  show ?case by (simp add: same_cfg_def)
next
  case (Cons l ls)
  let ?s1 = "if trim l \<noteq> [] then pushEntry s l now else s"
  have "same_cfg s ?s1 \<and> pushed ?s1 = pushed s" by (simp add: same_cfg_def pushEntry_fields)
  with Cons[of ?s1] show ?case by (simp add: same_cfg_def)
qed

lemma lines_cnt:
  "cnt_inv s \<Longrightarrow> cnt_inv (foldl (\<lambda>st l. if trim l \<noteq> [] then pushEntry st l now else st) s ls)"
  by (induction ls arbitrary: s) (simp_all add: pushEntry_cnt)

lemma lines_age:
  "age_inv now s \<Longrightarrow>
   age_inv now (foldl (\<lambda>st l. if trim l \<noteq> [] then pushEntry st l now else st) s ls)"
proof (induction ls arbitrary: s)
  case Nil
  then show ?case by simp
next
  case (Cons l ls)
  let ?s1 = "if trim l \<noteq> [] then pushEntry s l now else s"
  have "age_inv now ?s1" using Cons.prems pushEntry_age[of now s now l] by simp
  from Cons.IH[OF this] show ?case by simp
qed

lemma age_inv_mono: "age_inv t s \<Longrightarrow> t \<le> t' \<Longrightarrow> age_inv t' s"
  by (fastforce simp: age_inv_def)

lemma step_cfg: "same_cfg s (step toString s (now, ev))"
proof (cases ev)
  case (Ingest chunk)
  then show ?thesis
    using lines_cfg[of s now "split_str 0xA (toString chunk)"]
    by (simp add: transform_def Let_def pruneExpired_def pruneLoop_fields same_cfg_def)
next
  case Tick
  then show ?thesis by (simp add: pruneExpired_def pruneLoop_fields same_cfg_def)
qed

lemma step_cnt: "cnt_inv s \<Longrightarrow> cnt_inv (step toString s (now, ev))"
proof (cases ev)
  case (Ingest chunk)
  assume "cnt_inv s"
  from pruneLoop_cnt[OF lines_cnt[OF this]] show ?thesis
    using Ingest by (simp add: transform_def Let_def pruneExpired_def cnt_inv_def)
next
  case Tick
  assume c: "cnt_inv s"
  from pruneLoop_cnt[OF c] c show ?thesis using Tick by (simp add: pruneExpired_def)
qed

lemma step_age:
  assumes "age_inv t s" and "t \<le> now" and "cleanupTimer s"
  shows "age_inv now (step toString s (now, ev)) \<and>
     (\<forall>e \<in> set (buffer (step toString s (now, ev))). now - retentionWindowMs s \<le> timestamp e)"
proof (cases ev)
  case (Ingest chunk)
  let ?s1 = "foldl (\<lambda>st l. if trim l \<noteq> [] then pushEntry st l now else st) s
               (split_str 0xA (toString chunk))"
  have a: "age_inv now ?s1"
    using lines_age[OF age_inv_mono[OF assms(1,2)]] by simp
  have r: "retentionWindowMs ?s1 = retentionWindowMs s"
    using lines_cfg[of s now "split_str 0xA (toString chunk)"] by (simp add: same_cfg_def)
  from pruneLoop_age[OF a, of "now - retentionWindowMs s"]
  show ?thesis using Ingest r
    by (simp add: transform_def Let_def pruneExpired_def age_inv_def)
next
  case Tick
  from pruneLoop_age[OF age_inv_mono[OF assms(1,2)], of "now - retentionWindowMs s"]
  show ?thesis using Tick assms(3) by (simp add: pruneExpired_def)
qed

lemma run_snoc: "run toString s (evs @ [p]) = step toString (run toString s evs) p"
  by (simp add: run_def)

lemma run_cfg: "same_cfg s (run toString s evs)"
proof (induction evs rule: rev_induct)
  case Nil
  show ?case by (simp add: run_def same_cfg_def)
next
  case (snoc p evs)
  obtain now ev where p: "p = (now, ev)" by (cases p)
  from snoc step_cfg[of "run toString s evs" toString now ev]
  show ?case by (simp add: run_snoc p same_cfg_def)
qed

lemma run_cnt: "cnt_inv s \<Longrightarrow> cnt_inv (run toString s evs)"
proof (induction evs rule: rev_induct)
  case Nil
  then show ?case by (simp add: run_def)
next
  case (snoc p evs)
  obtain now ev where p: "p = (now, ev)" by (cases p)
  from step_cnt[OF snoc.IH[OF snoc.prems], of toString now ev]
  show ?case by (simp add: run_snoc p)
qed

lemma run_age:
  assumes "age_inv t s" and "cleanupTimer s" and "sorted (t # map fst evs)"
  shows "age_inv (last (t # map fst evs)) (run toString s evs)"
  using assms
proof (induction evs arbitrary: t s)
  case Nil
  then show ?case by (simp add: run_def)
next
  case (Cons p evs)
  obtain now ev where p: "p = (now, ev)" by (cases p)
  have le: "t \<le> now" using Cons.prems(3) p by simp
  from step_age[OF Cons.prems(1) le Cons.prems(2), of toString ev]
  have a: "age_inv now (step toString s p)" using p by simp
  have c: "cleanupTimer (step toString s p)"
    using step_cfg[of s toString now ev] Cons.prems(2) p by (simp add: same_cfg_def)
  have d: "sorted (now # map fst evs)" using Cons.prems(3) p by simp
  from Cons.IH[OF a c d] show ?case using p by (simp add: run_def)
qed

lemma new_cnt: "cnt_inv (newThrottledOutputStream opts)"
  by (simp add: newThrottledOutputStream_def cnt_inv_def Let_def)

lemma new_age:
  "age_inv t (newThrottledOutputStream opts) \<and> cleanupTimer (newThrottledOutputStream opts)"
  by (simp add: newThrottledOutputStream_def age_inv_def Let_def)

lemma new_maxLines:
  "(case opt_maxLines opts of None \<Rightarrow> True | Some n \<Rightarrow> 0 \<le> n) \<Longrightarrow>
   0 < maxLines (newThrottledOutputStream opts)"
  by (auto simp: newThrottledOutputStream_def Let_def LINE_RETENTION_COUNT_def split: option.splits)

text \<open>
  Claim C1, as amended. Take a channel fresh from its constructor and any sequence of
  chunk arrivals and timer ticks; each of these events ends in a prune pass at the
  event's clock reading \<open>now\<close>. If the configured limit is not negative, the buffer holds
  at most \<open>maxLines\<close> entries after each event. If the clock readings of the events do not
  run backwards, no entry is older than \<open>now - retentionWindowMs\<close> after each event.
\<close>

theorem channel_bounded_and_fresh:
  "(let s = run toString (newThrottledOutputStream opts) (evs @ [(now, ev)]) in
      ((case opt_maxLines opts of None \<Rightarrow> True | Some n \<Rightarrow> 0 \<le> n) \<longrightarrow>
         int (length (buffer s)) \<le> maxLines s) \<and>
      (sorted (map fst (evs @ [(now, ev)])) \<longrightarrow>
         (\<forall>e \<in> set (buffer s). now - retentionWindowMs s \<le> timestamp e)))"
proof -
  let ?s0 = "newThrottledOutputStream opts"
  let ?s1 = "run toString ?s0 evs"
  let ?s2 = "run toString ?s0 (evs @ [(now, ev)])"
  have cfg: "same_cfg ?s0 ?s2" and cfg1: "same_cfg ?s0 ?s1" by (rule run_cfg)+
  have count: "int (length (buffer ?s2)) \<le> maxLines ?s2"
    if h: "case opt_maxLines opts of None \<Rightarrow> True | Some n \<Rightarrow> 0 \<le> n"
  proof -
    have "cnt_inv ?s2" using run_cnt[OF new_cnt] .
    moreover have "0 < maxLines ?s2" using new_maxLines[OF h] cfg by (simp add: same_cfg_def)
    ultimately show ?thesis by (auto simp: cnt_inv_def)
  qed
  have age: "\<forall>e \<in> set (buffer ?s2). now - retentionWindowMs ?s2 \<le> timestamp e"
    if h: "sorted (map fst (evs @ [(now, ev)]))"
  proof -
    define t0 where "t0 = (case evs of [] \<Rightarrow> now | p # ps \<Rightarrow> fst p)"
    have srt: "sorted (map fst evs)" and le_all: "\<forall>x \<in> set evs. fst x \<le> now"
      using h by (simp_all add: sorted_append)
    have srt0: "sorted (t0 # map fst evs)"
      using srt by (cases evs) (simp_all add: t0_def)
    have le: "last (t0 # map fst evs) \<le> now"
      using le_all by (cases evs rule: rev_cases) (simp_all add: t0_def)
    have n: "age_inv t0 ?s0" and tm: "cleanupTimer ?s0"
      using new_age[of t0 opts] by simp_all
    have i: "age_inv (last (t0 # map fst evs)) ?s1" by (rule run_age[OF n tm srt0])
    have t: "cleanupTimer ?s1" using cfg1 tm by (simp add: same_cfg_def)
    from step_age[OF i le t, of toString ev]
    have d: "\<forall>e \<in> set (buffer ?s2). now - retentionWindowMs ?s1 \<le> timestamp e"
      by (simp add: run_snoc)
    have "retentionWindowMs ?s2 = retentionWindowMs ?s1"
      using cfg cfg1 by (simp only: same_cfg_def)
    with d show ?thesis by (simp only:)
  qed
  from count age show ?thesis by (simp only: Let_def) blast
qed

theorem channel_bounded_and_fresh_witness:
  "(case opt_maxLines \<lparr> opt_maxLines = Some 5, opt_retentionWindowMs = Some 10, opt_cleanupIntervalMs = None \<rparr>
      of None \<Rightarrow> True | Some n \<Rightarrow> 0 \<le> n) \<and>
   sorted (map fst ([(0::int, Ingest [0x61, 0x0A]), (5, Ingest [0x62, 0x0A]), (20, Ingest [0x63, 0x0A]),
                     (25, Ingest [0x64, 0x0A])] @ [(30, Tick)])) \<and>
   (let s = run latin1 (newThrottledOutputStream
                 \<lparr> opt_maxLines = Some 5, opt_retentionWindowMs = Some 10, opt_cleanupIntervalMs = None \<rparr>)
              ([(0::int, Ingest [0x61, 0x0A]), (5, Ingest [0x62, 0x0A]), (20, Ingest [0x63, 0x0A]),
                (25, Ingest [0x64, 0x0A])] @ [(30, Tick)])
    in int (length (buffer s)) \<le> maxLines s \<and>
       (\<forall>e \<in> set (buffer s). 30 - retentionWindowMs s \<le> timestamp e) \<and>
       maxLines s = 5 \<and> retentionWindowMs s = 10 \<and> map timestamp (buffer s) = [20, 25])"
proof -
  have v: "(let s = run latin1 (newThrottledOutputStream
                 \<lparr> opt_maxLines = Some 5, opt_retentionWindowMs = Some 10, opt_cleanupIntervalMs = None \<rparr>)
              ([(0::int, Ingest [0x61, 0x0A]), (5, Ingest [0x62, 0x0A]), (20, Ingest [0x63, 0x0A]),
                (25, Ingest [0x64, 0x0A])] @ [(30, Tick)])
    in maxLines s = 5 \<and> retentionWindowMs s = 10 \<and> map timestamp (buffer s) = [20, 25])"
    by code_simp
  from channel_bounded_and_fresh
    [of latin1 "\<lparr> opt_maxLines = Some 5, opt_retentionWindowMs = Some 10, opt_cleanupIntervalMs = None \<rparr>"
        "[(0::int, Ingest [0x61, 0x0A]), (5, Ingest [0x62, 0x0A]), (20, Ingest [0x63, 0x0A]),
          (25, Ingest [0x64, 0x0A])]" 30 Tick] v
  show ?thesis by (simp add: Let_def)
qed

text \<open>
  The claim of the specification, without the two provisos, fails. A limit of -1 passes
  the constructor, and after one chunk the buffer, empty as it is, is longer than the
  limit. And when the clock is set back between two chunks, the later chunk's entry sits
  behind a younger head, where the prune does not look: after the tick at 2000000 the
  last entry is from 1000000, older than the window of 900000 allows.
\<close>

theorem channel_claim_counterexample:
  "\<not> int (length (buffer (run latin1
            (newThrottledOutputStream
               \<lparr> opt_maxLines = Some (- 1), opt_retentionWindowMs = None, opt_cleanupIntervalMs = None \<rparr>)
            [(0, Ingest [0x61, 0x0A])])))
       \<le> maxLines (run latin1
            (newThrottledOutputStream
               \<lparr> opt_maxLines = Some (- 1), opt_retentionWindowMs = None, opt_cleanupIntervalMs = None \<rparr>)
            [(0, Ingest [0x61, 0x0A])]) \<and>
   timestamp (last (buffer (run latin1
            (newThrottledOutputStream
               \<lparr> opt_maxLines = None, opt_retentionWindowMs = None, opt_cleanupIntervalMs = None \<rparr>)
            [(2000000, Ingest [0x61, 0x0A]), (1000000, Ingest [0x62, 0x0A]), (2000000, Tick)])))
     < 2000000 - retentionWindowMs (run latin1
            (newThrottledOutputStream
               \<lparr> opt_maxLines = None, opt_retentionWindowMs = None, opt_cleanupIntervalMs = None \<rparr>)
            [(2000000, Ingest [0x61, 0x0A]), (1000000, Ingest [0x62, 0x0A]), (2000000, Tick)])"
  by code_simp

text \<open>
  The scenario of the specification: limit 3, five chunks of one line each; the last
  three lines remain.
\<close>

lemma channel_scenario:
  "map line (buffer (run latin1 (newThrottledOutputStream \<lparr> opt_maxLines = Some 3, opt_retentionWindowMs = None, opt_cleanupIntervalMs = None \<rparr>)
    [(0::int, Ingest [0x61, 0x0A]), (1, Ingest [0x62, 0x0A]), (2, Ingest [0x63, 0x0A]), (3, Ingest [0x64, 0x0A]), (4, Ingest [0x65, 0x0A])]))
   = [[0x63], [0x64], [0x65]]"
  by code_simp

text \<open>Teardown may be repeated: the second call changes nothing.\<close>

lemma flush_idempotent: "flush (flush s) = flush s"
  by (simp add: flush_def clearCleanupTimer_def)

text \<open>
  Claim C2. The chunks handed downstream are exactly the chunks that arrived, each once,
  in order and unchanged, whatever the decoder makes of them, whatever lines they hold
  and whatever the buffer and the timer did in between.
\<close>

theorem chunks_forwarded_once:
  "pushed (run toString s evs) = pushed s @ chunks_of evs"
proof (induction evs arbitrary: s rule: chunks_of.induct)
  case 1
  show ?case by (simp add: run_def)
next
  case (2 now chunk evs)
  have "pushed (transform toString s now chunk) = pushed s @ [chunk]"
    by (simp add: transform_def Let_def pruneExpired_def pruneLoop_fields lines_cfg)
  with 2[of "transform toString s now chunk"] show ?case by (simp add: run_def)
next
  case (3 now evs)
  have "pushed (step toString s (now, Tick)) = pushed s"
    by (simp add: pruneExpired_def pruneLoop_fields)
  with 3[of "step toString s (now, Tick)"] show ?case by (simp add: run_def del: step.simps)
qed

section \<open>Properties of the colour assignment\<close>

lemma charCode_foldl:
  "foldl (\<lambda>acc char. acc + int (unat char)) a (name :: jsstring) = a + int (sum_list (map unat name))"
  by (induction name arbitrary: a) simp_all

lemma length_colors: "length colors = 8"
  by (simp add: colors_def)

text \<open>
  Claim C9. The colour of a project is the palette entry at the sum of the name's
  character codes modulo the palette size (8); the index is always inside the palette,
  and nothing but the name enters the computation.
\<close>

theorem color_from_name_sum:
  "colorIndex name = sum_list (map unat name) mod length colors \<and>
   colorIndex name < length colors \<and>
   color name = colors ! (sum_list (map unat name) mod length colors)"
proof -
  have "colorIndex name = sum_list (map unat name) mod length colors"
    unfolding colorIndex_def charCodeSum_def charCode_foldl
    by (simp add: length_colors nat_mod_distrib)
  then show ?thesis by (simp add: color_def length_colors)
qed

text \<open>The project \<open>api\<close>: 97 + 112 + 105 = 314, index 2, blue.\<close>

lemma color_api: "color (js ''api'') = js (CHR 0x1B # ''[34m'')"
  by (simp add: color_def colorIndex_def charCodeSum_def colors_def js_def)

section \<open>Properties of executeCommand\<close>





lemma resumes_bound:
  "t0 \<le> resumesAt (executeCommand os projectPath t0 command type) \<and>
   resumesAt (executeCommand os projectPath t0 command type) \<le> t0 + TIMEOUT"
  by (simp add: executeCommand_def Let_def split: spawn_result.splits option.splits prod.splits)

lemma executeAll_bound:
  "t \<le> fst (executeAll os projectPath type t cmds) \<and>
   fst (executeAll os projectPath type t cmds) \<le> t + length cmds * TIMEOUT"
proof (induction cmds arbitrary: t)
  case Nil
  show ?case by simp
next
  case (Cons c cs)
  let ?r = "executeCommand os projectPath t c type"
  have "fst (executeAll os projectPath type t (c # cs)) = fst (executeAll os projectPath type (resumesAt ?r) cs)"
    by (simp add: Let_def split: prod.splits)
  with Cons[of "resumesAt ?r"] resumes_bound[of t os projectPath c type]
  show ?case by simp
qed





section \<open>Properties of startProject, of the log file and of the launch\<close>

lemma startProject_missing:
  assumes "projects config projectName = Some projectConfig"
    and "\<not> existsSync rt (proj_path projectConfig)"
  shows "startProject rt projectName config options t0 =
     \<lparr> result = Returns None, finishedAt = t0,
       console = [(t0, MsgPathMissing (proj_path projectConfig))], calls = [],
       logWrites = [], throttles = None \<rparr>"
  using assms by (simp add: startProject_def Let_def)

lemma startProject_spawned:
  assumes "projects config projectName = Some pc"
    and "result (startProject rt projectName config options t0) = Returns (Some process)"
  shows "logWrites (startProject rt projectName config options t0) =
           (if logMode options = FILE \<or> logMode options = BOTH
            then logBanner rt (finishedAt (startProject rt projectName config options t0))
                   projectName (proj_command pc) (proj_path pc)
            else [])"
    and "(finishedAt (startProject rt projectName config options t0),
          SpawnCall (hd (split_str 0x20 (proj_command pc))) (tl (split_str 0x20 (proj_command pc)))
            \<lparr> cwd = proj_path pc,
              stdio = (if logMode options = FILE then Inherit else Pipe),
              shell = True, detached = False \<rparr>)
         \<in> set (calls (startProject rt projectName config options t0))"
    and "logMode options = FILE \<or> logMode options = BOTH \<Longrightarrow>
         (finishedAt (startProject rt projectName config options t0),
          CreateWriteStream projectName (platformName options) (logDir options))
         \<in> set (calls (startProject rt projectName config options t0))"
    and "throttles (startProject rt projectName config options t0) = None
           \<longleftrightarrow> \<not> (logMode options = CONSOLE \<or> logMode options = BOTH)"
  using assms
  by (auto simp: startProject_def Let_def split: prod.splits spawn_result.splits if_splits)

text \<open>The project \<open>ui\<close> of the example starts in every mode.\<close>

lemma example_ui_starts:
  "startProject example_runtime (js ''ui'') example_config (example_options mode) t0 =
     \<lparr> result = Returns (Some example_process), finishedAt = t0,
       console = (t0, MsgStartFlow (js ''ui'')) # (t0, MsgStartCommand (js ''ui'') (js ''npm run dev''))
                 # (if mode = FILE
                    then [(t0, MsgLogFile (js ''ui'')), (t0, MsgTailHint (js ''ui''))] else [])
                 @ [(t0 + 100, MsgStarted (js ''ui''))],
       calls = (t0, SpawnCall (js ''npm'') [js ''run'', js ''dev'']
                      \<lparr> cwd = js ''/srv/ui'', stdio = (if mode = FILE then Inherit else Pipe),
                        shell = True, detached = False \<rparr>)
               # (if mode = FILE \<or> mode = BOTH
                  then [(t0, CreateWriteStream (js ''ui'') (js ''web'') (js ''logs''))] else []),
       logWrites = (if mode = FILE \<or> mode = BOTH
                    then logBanner example_runtime t0 (js ''ui'') (js ''npm run dev'') (js ''/srv/ui'')
                    else []),
       throttles = (if mode = CONSOLE \<or> mode = BOTH
                    then Some (newThrottledOutputStream
                                 \<lparr> opt_maxLines = None, opt_retentionWindowMs = None,
                                   opt_cleanupIntervalMs = None \<rparr>,
                               newThrottledOutputStream
                                 \<lparr> opt_maxLines = None, opt_retentionWindowMs = None,
                                   opt_cleanupIntervalMs = None \<rparr>)
                    else None) \<rparr>"
  by (simp add: startProject_def example_config_def example_runtime_def example_options_def
        preCommandBlock_def js_def Let_def)

lemma startPromises_nth:
  "i < length projectsToStart \<Longrightarrow>
   startPromises rt config args platform batchStart projectsToStart ! i =
     startPromise rt config args platform batchStart i (projectsToStart ! i)"
  by (simp add: startPromises_def nth_enumerate_eq)

lemma startPromises_two:
  "startPromises rt config args platform batchStart [a, b] =
     [startPromise rt config args platform batchStart 0 a,
      startPromise rt config args platform batchStart 1 b]"
  by (simp add: startPromises_def)

text \<open>
  Claim C5. When the directory of a configured project does not exist, \<open>startProject\<close>
  prints the error and returns \<open>null\<close> at once: no pre-command has run, no call was made,
  nothing was written. Launched together with a project \<open>ui\<close> that starts, the missing
  \<open>api\<close> is fulfilled with \<open>null\<close> and \<open>ui\<close> with its process: one handle, 1 of 2
  started, \<open>api\<close> listed as failed.
\<close>

theorem missing_path_fails_alone:
  "(projects config projectName = Some pc \<longrightarrow> \<not> existsSync rt (proj_path pc) \<longrightarrow>
      startProject rt projectName config options t0 =
        \<lparr> result = Returns None, finishedAt = t0,
          console = [(t0, MsgPathMissing (proj_path pc))], calls = [],
          logWrites = [], throttles = None \<rparr>) \<and>
   (projects config api = Some pa \<longrightarrow> \<not> existsSync rt (proj_path pa) \<longrightarrow>
    result (startProject rt ui config
              \<lparr> logMode = arg_logMode args, logDir = arg_logDir args, platformName = platform,
                logBufferWindowMs =
                  orNull (arg_logBufferWindowMs args) (cfg_logBufferWindowMs config) \<rparr>
              (batchStart + STARTUP_DELAY_MS)) = Returns (Some proc) \<longrightarrow>
      map settledAs (startPromises rt config args platform batchStart [api, ui]) =
        [Fulfilled None, Fulfilled (Some (ui, proc))] \<and>
      announced (startPromises rt config args platform batchStart [api, ui] ! 0) =
        [(batchStart, MsgLaunching api), (batchStart, MsgLaunchFailed api)] \<and>
      launchReport rt config args platform batchStart [api, ui] =
        Some \<lparr> processes = [proc], successCount = 1, projectCount = 2,
               failedProjects = [api] \<rparr>)"
proof -
  have d: "announced (startPromises rt config args platform batchStart [api, ui] ! 0) =
        [(batchStart, MsgLaunching api), (batchStart, MsgLaunchFailed api)]"
    if "projects config api = Some pa" and "\<not> existsSync rt (proj_path pa)"
    using that
    by (simp add: startPromises_two startPromise_def Let_def startProject_missing)
  have a: "map settledAs (startPromises rt config args platform batchStart [api, ui]) =
        [Fulfilled None, Fulfilled (Some (ui, proc))]"
    if "projects config api = Some pa" and "\<not> existsSync rt (proj_path pa)"
      and "result (startProject rt ui config
              \<lparr> logMode = arg_logMode args, logDir = arg_logDir args, platformName = platform,
                logBufferWindowMs =
                  orNull (arg_logBufferWindowMs args) (cfg_logBufferWindowMs config) \<rparr>
              (batchStart + STARTUP_DELAY_MS)) = Returns (Some proc)"
    using that
    by (simp add: startPromises_two startPromise_def Let_def startProject_missing)
  have b: "launchReport rt config args platform batchStart [api, ui] =
        Some \<lparr> processes = [proc], successCount = 1, projectCount = 2,
               failedProjects = [api] \<rparr>"
    if "map settledAs (startPromises rt config args platform batchStart [api, ui]) =
        [Fulfilled None, Fulfilled (Some (ui, proc))]"
    using that by (simp add: launchReport_def Let_def)
  have c: "projects config projectName = Some pc \<longrightarrow> \<not> existsSync rt (proj_path pc) \<longrightarrow>
      startProject rt projectName config options t0 =
        \<lparr> result = Returns None, finishedAt = t0,
          console = [(t0, MsgPathMissing (proj_path pc))], calls = [],
          logWrites = [], throttles = None \<rparr>"
    using startProject_missing[of config projectName pc rt options t0] by (intro impI)
  show ?thesis
  proof (intro conjI impI)
    show "startProject rt projectName config options t0 =
        \<lparr> result = Returns None, finishedAt = t0,
          console = [(t0, MsgPathMissing (proj_path pc))], calls = [],
          logWrites = [], throttles = None \<rparr>"
      if "projects config projectName = Some pc" "\<not> existsSync rt (proj_path pc)"
      using c that by (elim impE) 
  next
    assume h: "projects config api = Some pa" "\<not> existsSync rt (proj_path pa)"
      "result (startProject rt ui config
              \<lparr> logMode = arg_logMode args, logDir = arg_logDir args, platformName = platform,
                logBufferWindowMs =
                  orNull (arg_logBufferWindowMs args) (cfg_logBufferWindowMs config) \<rparr>
              (batchStart + STARTUP_DELAY_MS)) = Returns (Some proc)"
    show "map settledAs (startPromises rt config args platform batchStart [api, ui]) =
        [Fulfilled None, Fulfilled (Some (ui, proc))]"
      by (rule a[OF h])
    show "announced (startPromises rt config args platform batchStart [api, ui] ! 0) =
        [(batchStart, MsgLaunching api), (batchStart, MsgLaunchFailed api)]"
      by (rule d[OF h(1,2)])
    show "launchReport rt config args platform batchStart [api, ui] =
        Some \<lparr> processes = [proc], successCount = 1, projectCount = 2,
               failedProjects = [api] \<rparr>"
      by (rule b[OF a[OF h]])
  qed
qed

theorem missing_path_fails_alone_witness:
  "projects example_config (js ''api'') =
     Some \<lparr> proj_path = js ''/srv/api'', proj_command = js ''npm run serve'', preCommands = None \<rparr> \<and>
   \<not> existsSync example_runtime (js ''/srv/api'') \<and>
   startProject example_runtime (js ''api'') example_config (example_options CONSOLE) 0 =
     \<lparr> result = Returns None, finishedAt = 0,
       console = [(0, MsgPathMissing (js ''/srv/api''))], calls = [],
       logWrites = [], throttles = None \<rparr> \<and>
   map settledAs (startPromises example_runtime example_config (example_args CONSOLE) (js ''web'') 0
                    [js ''api'', js ''ui'']) =
     [Fulfilled None, Fulfilled (Some (js ''ui'', example_process))] \<and>
   announced (startPromises example_runtime example_config (example_args CONSOLE) (js ''web'') 0
                [js ''api'', js ''ui''] ! 0) =
     [(0, MsgLaunching (js ''api'')), (0, MsgLaunchFailed (js ''api''))] \<and>
   launchReport example_runtime example_config (example_args CONSOLE) (js ''web'') 0
       [js ''api'', js ''ui''] =
     Some \<lparr> processes = [example_process], successCount = 1, projectCount = 2,
            failedProjects = [js ''api''] \<rparr>"
proof -
  have p: "projects example_config (js ''api'') =
     Some \<lparr> proj_path = js ''/srv/api'', proj_command = js ''npm run serve'', preCommands = None \<rparr>"
    by (simp add: example_config_def js_def)
  have e: "\<not> existsSync example_runtime (js ''/srv/api'')"
    by (simp add: example_runtime_def js_def)
  have o: "\<lparr> logMode = arg_logMode (example_args CONSOLE), logDir = arg_logDir (example_args CONSOLE),
             platformName = js ''web'',
             logBufferWindowMs = orNull (arg_logBufferWindowMs (example_args CONSOLE))
                                   (cfg_logBufferWindowMs example_config) \<rparr> = example_options CONSOLE"
    by (simp add: example_args_def example_options_def example_config_def orNull_def)
  have u: "result (startProject example_runtime (js ''ui'') example_config
              \<lparr> logMode = arg_logMode (example_args CONSOLE), logDir = arg_logDir (example_args CONSOLE),
                platformName = js ''web'',
                logBufferWindowMs = orNull (arg_logBufferWindowMs (example_args CONSOLE))
                                      (cfg_logBufferWindowMs example_config) \<rparr>
              (0 + STARTUP_DELAY_MS)) = Returns (Some example_process)"
    unfolding o by (simp add: example_ui_starts)
  from missing_path_fails_alone
    [where config = example_config and projectName = "js ''api''" and api = "js ''api''"
       and pc = "\<lparr> proj_path = js ''/srv/api'', proj_command = js ''npm run serve'', preCommands = None \<rparr>"
       and pa = "\<lparr> proj_path = js ''/srv/api'', proj_command = js ''npm run serve'', preCommands = None \<rparr>"
       and rt = example_runtime and options = "example_options CONSOLE" and ?t0.0 = 0
       and ui = "js ''ui''" and args = "example_args CONSOLE" and platform = "js ''web''"
       and batchStart = 0 and proc = example_process]
    p e u
  show ?thesis by simp
qed

lemma listeners_times:
  "\<forall>x \<in> set (concat (map (commandListeners type t0) evs)). t0 \<le> fst x"
proof (induction evs)
  case Nil
  show ?case by simp
next
  case (Cons e evs)
  obtain d ev where e: "e = (d, ev)" by (cases e)
  from Cons show ?case unfolding e by (cases ev) auto
qed

lemma executeCommand_times:
  "(\<forall>x \<in> set (exec_console (executeCommand os projectPath t0 command type)). t0 \<le> fst x) \<and>
   (\<forall>x \<in> set (exec_calls (executeCommand os projectPath t0 command type)). t0 \<le> fst x)"
  using listeners_times[of type t0]
  by (auto simp: executeCommand_def Let_def split: spawn_result.splits option.splits prod.splits)

lemma executeAll_times:
  "(\<forall>x \<in> set (fst (snd (executeAll os projectPath type t cmds))). t \<le> fst x) \<and>
   (\<forall>x \<in> set (snd (snd (executeAll os projectPath type t cmds))). t \<le> fst x)"
proof (induction cmds arbitrary: t)
  case Nil
  show ?case by simp
next
  case (Cons c cs)
  let ?r = "executeCommand os projectPath t c type"
  have le: "t \<le> resumesAt ?r" using resumes_bound[of t os projectPath c type] by simp
  have eq: "executeAll os projectPath type t (c # cs) =
     (fst (executeAll os projectPath type (resumesAt ?r) cs),
      exec_console ?r @ fst (snd (executeAll os projectPath type (resumesAt ?r) cs)),
      exec_calls ?r @ snd (snd (executeAll os projectPath type (resumesAt ?r) cs)))"
    by (simp add: Let_def split: prod.splits)
  from Cons[of "resumesAt ?r"] le executeCommand_times[of os projectPath t c type]
  show ?case unfolding eq by fastforce
qed

lemma preCommandBlock_times:
  "t \<le> fst (preCommandBlock os projectPath type heading t commands) \<and>
   (\<forall>x \<in> set (fst (snd (preCommandBlock os projectPath type heading t commands))). t \<le> fst x) \<and>
   (\<forall>x \<in> set (snd (snd (preCommandBlock os projectPath type heading t commands))). t \<le> fst x)"
proof (cases commands)
  case None
  then show ?thesis by (simp add: preCommandBlock_def)
next
  case (Some cs)
  from executeAll_times[of os projectPath type t cs] executeAll_bound[of t os projectPath type cs]
  show ?thesis using Some by (auto simp: preCommandBlock_def split: prod.splits)
qed

lemma startProject_times:
  "t0 \<le> finishedAt (startProject rt projectName config options t0) \<and>
   console (startProject rt projectName config options t0) \<noteq> [] \<and>
   fst (hd (console (startProject rt projectName config options t0))) = t0 \<and>
   (\<forall>x \<in> set (console (startProject rt projectName config options t0)). t0 \<le> fst x) \<and>
   (\<forall>x \<in> set (calls (startProject rt projectName config options t0)). t0 \<le> fst x)"
proof (cases "projects config projectName")
  case None
  then show ?thesis by (simp add: startProject_def)
next
  case (Some pc)
  show ?thesis
  proof (cases "existsSync rt (proj_path pc)")
    case False
    then show ?thesis using Some by (simp add: startProject_def)
  next
    case True
    let ?b1 = "preCommandBlock (spawn rt) (proj_path pc) (GlobalPreCommand projectName)
                 (MsgGlobalPre projectName) t0 (globalPreCommands config)"
    let ?b2 = "preCommandBlock (spawn rt) (proj_path pc) (ProjectPreCommand projectName)
                 (MsgProjectPre projectName) (fst ?b1) (preCommands pc)"
    have b1: "t0 \<le> fst ?b1" "\<forall>x \<in> set (fst (snd ?b1)). t0 \<le> fst x"
      "\<forall>x \<in> set (snd (snd ?b1)). t0 \<le> fst x"
      using preCommandBlock_times[of t0 "spawn rt" "proj_path pc" "GlobalPreCommand projectName"
          "MsgGlobalPre projectName" "globalPreCommands config"] by simp_all
    have b2: "fst ?b1 \<le> fst ?b2" "\<forall>x \<in> set (fst (snd ?b2)). fst ?b1 \<le> fst x"
      "\<forall>x \<in> set (snd (snd ?b2)). fst ?b1 \<le> fst x"
      using preCommandBlock_times[of "fst ?b1" "spawn rt" "proj_path pc" "ProjectPreCommand projectName"
          "MsgProjectPre projectName" "preCommands pc"] by simp_all
    have b2': "t0 \<le> fst ?b2" "\<forall>x \<in> set (fst (snd ?b2)). t0 \<le> fst x"
      "\<forall>x \<in> set (snd (snd ?b2)). t0 \<le> fst x"
      using b1(1) b2 by fastforce+
    show ?thesis
      using Some True b1 b2'
      by (auto simp: startProject_def Let_def case_prod_beta split: spawn_result.splits)
  qed
qed

lemma startPromises_started:
  "i < length projectsToStart \<Longrightarrow>
   started (startPromises rt config args platform batchStart projectsToStart ! i) =
     startProject rt (projectsToStart ! i) config
       \<lparr> logMode = arg_logMode args, logDir = arg_logDir args, platformName = platform,
         logBufferWindowMs = orNull (arg_logBufferWindowMs args) (cfg_logBufferWindowMs config) \<rparr>
       (batchStart + i * 1000)"
  by (simp add: startPromises_nth startPromise_def Let_def STARTUP_DELAY_MS_def)

text \<open>
  Claim C6. \<open>STARTUP_DELAY_MS\<close> is 1000. The launch of the project at index \<open>i\<close> is the
  call of \<open>startProject\<close> for that project at \<open>batchStart + i * 1000\<close>: its first message
  is printed at that time, none of its messages and none of its calls, pre-commands and
  the spawn of the main process among them, comes earlier, and the main process, when
  there is one, is spawned at the time the call finishes. The launch is that of the
  project alone at that time: what the other launches do, and whether they have
  finished, does not enter.
\<close>

theorem staggered_start:
  "STARTUP_DELAY_MS = 1000 \<and>
   (i < length projectsToStart \<longrightarrow>
     (let start = batchStart + i * 1000;
          p = startPromises rt config args platform batchStart projectsToStart ! i;
          r = started p
      in startedAt p = start \<and>
         r = startProject rt (projectsToStart ! i) config
               \<lparr> logMode = arg_logMode args, logDir = arg_logDir args, platformName = platform,
                 logBufferWindowMs =
                   orNull (arg_logBufferWindowMs args) (cfg_logBufferWindowMs config) \<rparr>
               start \<and>
         console r \<noteq> [] \<and> fst (hd (console r)) = start \<and>
         (\<forall>x \<in> set (console r). start \<le> fst x) \<and>
         (\<forall>x \<in> set (calls r). start \<le> fst x) \<and>
         start \<le> finishedAt r \<and>
         (projects config (projectsToStart ! i) = Some pc \<longrightarrow>
          result r = Returns (Some proc) \<longrightarrow>
            (finishedAt r,
             SpawnCall (hd (split_str 0x20 (proj_command pc))) (tl (split_str 0x20 (proj_command pc)))
               \<lparr> cwd = proj_path pc,
                 stdio = (if arg_logMode args = FILE then Inherit else Pipe),
                 shell = True, detached = False \<rparr>) \<in> set (calls r))))"
proof -
  let ?start = "batchStart + i * 1000"
  let ?p = "startPromises rt config args platform batchStart projectsToStart ! i"
  let ?opts = "\<lparr> logMode = arg_logMode args, logDir = arg_logDir args, platformName = platform,
                 logBufferWindowMs =
                   orNull (arg_logBufferWindowMs args) (cfg_logBufferWindowMs config) \<rparr>"
  let ?r = "startProject rt (projectsToStart ! i) config ?opts ?start"
  have d: "STARTUP_DELAY_MS = 1000" by (simp add: STARTUP_DELAY_MS_def)
  have body: "startedAt ?p = ?start \<and> started ?p = ?r \<and>
         console (started ?p) \<noteq> [] \<and> fst (hd (console (started ?p))) = ?start \<and>
         (\<forall>x \<in> set (console (started ?p)). ?start \<le> fst x) \<and>
         (\<forall>x \<in> set (calls (started ?p)). ?start \<le> fst x) \<and>
         ?start \<le> finishedAt (started ?p) \<and>
         (projects config (projectsToStart ! i) = Some pc \<longrightarrow>
          result (started ?p) = Returns (Some proc) \<longrightarrow>
            (finishedAt (started ?p),
             SpawnCall (hd (split_str 0x20 (proj_command pc))) (tl (split_str 0x20 (proj_command pc)))
               \<lparr> cwd = proj_path pc,
                 stdio = (if arg_logMode args = FILE then Inherit else Pipe),
                 shell = True, detached = False \<rparr>) \<in> set (calls (started ?p)))"
    if i: "i < length projectsToStart"
  proof -
    have s: "started ?p = ?r" by (rule startPromises_started[OF i])
    have a: "startedAt ?p = ?start"
      using i by (simp add: startPromises_nth startPromise_def Let_def STARTUP_DELAY_MS_def)
    have sp: "(finishedAt ?r,
             SpawnCall (hd (split_str 0x20 (proj_command pc))) (tl (split_str 0x20 (proj_command pc)))
               \<lparr> cwd = proj_path pc,
                 stdio = (if arg_logMode args = FILE then Inherit else Pipe),
                 shell = True, detached = False \<rparr>) \<in> set (calls ?r)"
      if "projects config (projectsToStart ! i) = Some pc" and "result ?r = Returns (Some proc)"
      using startProject_spawned(2)[OF that] by simp
    from a sp startProject_times[of ?start rt "projectsToStart ! i" config ?opts]
    show ?thesis unfolding s by blast
  qed
  from d body show ?thesis by (simp only: Let_def) blast
qed

lemma example2_api:
  "finishedAt (startProject example_runtime2 (js ''api'') example_config2 (example_options CONSOLE) t0)
     = t0 + 10000"
  by (simp add: startProject_def example_config2_def example_runtime2_def example_options_def
        preCommandBlock_def executeCommand_def endsWith_def trim_def isWhiteSpace_def
        TIMEOUT_def js_def Let_def)

lemma example2_ui:
  "result (startProject example_runtime2 (js ''ui'') example_config2 (example_options CONSOLE) t0)
     = Returns (Some example_killed) \<and>
   calls (startProject example_runtime2 (js ''ui'') example_config2 (example_options CONSOLE) t0)
     = [(t0, SpawnCall (js ''npm'') [js ''run'', js ''dev'']
               \<lparr> cwd = js ''/srv/ui'', stdio = Pipe, shell = True, detached = False \<rparr>)] \<and>
   finishedAt (startProject example_runtime2 (js ''ui'') example_config2 (example_options CONSOLE) t0)
     = t0"
  by (simp add: startProject_def example_config2_def example_runtime2_def example_options_def
        preCommandBlock_def js_def Let_def)

lemma example2_options:
  "\<lparr> logMode = arg_logMode (example_args mode), logDir = arg_logDir (example_args mode),
     platformName = js ''web'',
     logBufferWindowMs = orNull (arg_logBufferWindowMs (example_args mode))
                           (cfg_logBufferWindowMs example_config2) \<rparr> = example_options mode"
  by (simp add: example_args_def example_options_def example_config2_def orNull_def)

theorem staggered_start_witness:
  "1 < length [js ''api'', js ''ui''] \<and>
   projects example_config2 ([js ''api'', js ''ui''] ! 1) =
     Some \<lparr> proj_path = js ''/srv/ui'', proj_command = js ''npm run dev'', preCommands = None \<rparr> \<and>
   result (started (startPromises example_runtime2 example_config2 (example_args CONSOLE) (js ''web'') 5000
                      [js ''api'', js ''ui''] ! 1)) = Returns (Some example_killed) \<and>
   calls (started (startPromises example_runtime2 example_config2 (example_args CONSOLE) (js ''web'') 5000
                      [js ''api'', js ''ui''] ! 1)) =
     [(6000, SpawnCall (js ''npm'') [js ''run'', js ''dev'']
               \<lparr> cwd = js ''/srv/ui'', stdio = Pipe, shell = True, detached = False \<rparr>)] \<and>
   fst (hd (console (started (startPromises example_runtime2 example_config2 (example_args CONSOLE)
                                (js ''web'') 5000 [js ''api'', js ''ui''] ! 1)))) = 6000 \<and>
   finishedAt (started (startPromises example_runtime2 example_config2 (example_args CONSOLE) (js ''web'')
                          5000 [js ''api'', js ''ui''] ! 0)) = 15000"
proof -
  have l: "1 < length [js ''api'', js ''ui'']" by simp
  have p: "projects example_config2 ([js ''api'', js ''ui''] ! 1) =
     Some \<lparr> proj_path = js ''/srv/ui'', proj_command = js ''npm run dev'', preCommands = None \<rparr>"
    by (simp add: example_config2_def js_def)
  from staggered_start
    [where i = 1 and projectsToStart = "[js ''api'', js ''ui'']" and rt = example_runtime2
       and config = example_config2 and args = "example_args CONSOLE" and platform = "js ''web''"
       and batchStart = 5000 and proc = example_killed
       and pc = "\<lparr> proj_path = js ''/srv/ui'', proj_command = js ''npm run dev'', preCommands = None \<rparr>"]
  have r: "started (startPromises example_runtime2 example_config2 (example_args CONSOLE) (js ''web'') 5000
                      [js ''api'', js ''ui''] ! 1) =
           startProject example_runtime2 ([js ''api'', js ''ui''] ! 1) example_config2
             (example_options CONSOLE) (5000 + 1 * 1000)"
    and f: "fst (hd (console (started (startPromises example_runtime2 example_config2
               (example_args CONSOLE) (js ''web'') 5000 [js ''api'', js ''ui''] ! 1)))) = 5000 + 1 * 1000"
    unfolding Let_def example2_options using l by blast+
  have z: "finishedAt (started (startPromises example_runtime2 example_config2 (example_args CONSOLE)
             (js ''web'') 5000 [js ''api'', js ''ui''] ! 0)) = 15000"
    using startPromises_started[of 0 "[js ''api'', js ''ui'']" example_runtime2 example_config2
            "example_args CONSOLE" "js ''web''" 5000]
    by (simp add: example2_options example2_api)
  from l p f z show ?thesis unfolding r by (simp add: example2_ui)
qed

















text \<open>
  An \<open>'error'\<close> event of the main process ends the supervision: what was written before
  stays, the exit line is never written.
\<close>

lemma main_error_ends_supervision:
  "logStreamWrites rt mode t ((d, Error msg) # evs) = [] \<and>
   supervisionEnd ((d, Error msg) # evs) = Crashed msg"
  by simp

section \<open>Properties of the memory sample\<close>

lemma jsadd_assoc: "jsadd (jsadd a b) c = jsadd a (jsadd b c)"
  by (cases a; cases b; cases c) simp_all

lemma jsadd_zero: "jsadd (Num 0) a = a" "jsadd a (Num 0) = a"
  by (cases a; simp)+

lemma total_loop:
  "foldl (\<lambda>totalMemory proc.
              case pid proc of
                None \<Rightarrow> totalMemory
              | Some p \<Rightarrow> if p = 0 then totalMemory
                          else jsadd totalMemory (getChildProcessMemory win32 exec p))
           acc procs
   = jsadd acc (jssum (map (getChildProcessMemory win32 exec) (trackedPids procs)))"
  by (induction procs arbitrary: acc) (simp_all add: jsadd_zero jsadd_assoc split: option.splits)

lemma total_children:
  "getTotalChildProcessesMemory win32 exec procs =
     jssum (map (getChildProcessMemory win32 exec) (trackedPids procs))"
  by (simp add: getTotalChildProcessesMemory_def total_loop jsadd_zero)

lemma parse_10240: "parseInt (trim (js '' 10240'' @ [0xA])) = Num 10240"
  by (simp add: parseInt_def trim_def js_def isWhiteSpace_def isDigit_def digitsValue_def Let_def)

lemma parse_15360: "parseInt (trim (js '' 15360'' @ [0xA])) = Num 15360"
  by (simp add: parseInt_def trim_def js_def isWhiteSpace_def isDigit_def digitsValue_def Let_def)

text \<open>
  Claim C7. The total of a sample is the resident size of the supervisor plus the sum,
  over the tracked handles that have a pid, of what \<open>getChildProcessMemory\<close> yields for
  each. A query that ends in an error yields exactly 0 on both platforms, which leaves
  the running sum as it was, and the sample is completed in every case. With a parent of
  5 MB and two children for which \<open>ps\<close> reports 10240 KB and 15360 KB, the total is 30 MB
  and the status is the normal one, below the 50 MB threshold.
\<close>

theorem memory_total:
  "totalMemory (memoryMonitor win32 exec rss procs) =
     jsadd (Num rss) (jssum (map (getChildProcessMemory win32 exec) (trackedPids procs))) \<and>
   (exec (if win32 then WmicWorkingSet p else PsRss p) = ExecError \<longrightarrow>
      getChildProcessMemory win32 exec p = Num 0 \<and>
      jsadd acc (getChildProcessMemory win32 exec p) = acc) \<and>
   memoryMonitor False example_exec (5 * 1024 * 1024)
       [\<lparr> pid = Some 101, events = [] \<rparr>, \<lparr> pid = Some 102, events = [] \<rparr>] =
     \<lparr> parentRss = 5 * 1024 * 1024, childMemory = Num (25 * 1024 * 1024),
       totalMemory = Num (30 * 1024 * 1024), status = Normal \<rparr>"
proof -
  have a: "totalMemory (memoryMonitor win32 exec rss procs) =
     jsadd (Num rss) (jssum (map (getChildProcessMemory win32 exec) (trackedPids procs)))"
    by (simp add: memoryMonitor_def Let_def total_children)
  have b: "getChildProcessMemory win32 exec p = Num 0 \<and>
      jsadd acc (getChildProcessMemory win32 exec p) = acc"
    if "exec (if win32 then WmicWorkingSet p else PsRss p) = ExecError"
    using that by (cases win32) (simp_all add: getChildProcessMemory_def jsadd_zero)
  have c: "memoryMonitor False example_exec (5 * 1024 * 1024)
       [\<lparr> pid = Some 101, events = [] \<rparr>, \<lparr> pid = Some 102, events = [] \<rparr>] =
     \<lparr> parentRss = 5 * 1024 * 1024, childMemory = Num (25 * 1024 * 1024),
       totalMemory = Num (30 * 1024 * 1024), status = Normal \<rparr>"
    by (simp add: memoryMonitor_def getTotalChildProcessesMemory_def getChildProcessMemory_def
          example_exec_def parse_10240 parse_15360 Let_def)
  from a b c show ?thesis by blast
qed

theorem memory_total_witness:
  "example_exec (if False then WmicWorkingSet 103 else PsRss 103) = ExecError \<and>
   getChildProcessMemory False example_exec 103 = Num 0 \<and>
   totalMemory (memoryMonitor False example_exec (5 * 1024 * 1024)
       [\<lparr> pid = Some 101, events = [] \<rparr>, \<lparr> pid = Some 103, events = [] \<rparr>,
        \<lparr> pid = Some 102, events = [] \<rparr>]) = Num (30 * 1024 * 1024)"
proof -
  have e: "example_exec (if False then WmicWorkingSet 103 else PsRss 103) = ExecError"
    by (simp add: example_exec_def)
  from memory_total[where ?win32.0 = False and exec = example_exec and p = 103
      and rss = "5 * 1024 * 1024"
      and procs = "[\<lparr> pid = Some 101, events = [] \<rparr>, \<lparr> pid = Some 103, events = [] \<rparr>,
                    \<lparr> pid = Some 102, events = [] \<rparr>]"] e
  have z: "getChildProcessMemory False example_exec 103 = Num 0"
    and t: "totalMemory (memoryMonitor False example_exec (5 * 1024 * 1024)
       [\<lparr> pid = Some 101, events = [] \<rparr>, \<lparr> pid = Some 103, events = [] \<rparr>,
        \<lparr> pid = Some 102, events = [] \<rparr>]) =
      jsadd (Num (5 * 1024 * 1024)) (jssum (map (getChildProcessMemory False example_exec)
        (trackedPids [\<lparr> pid = Some 101, events = [] \<rparr>, \<lparr> pid = Some 103, events = [] \<rparr>,
                      \<lparr> pid = Some 102, events = [] \<rparr>])))"
    by blast+
  have "getChildProcessMemory False example_exec 101 = Num (10240 * 1024)"
    "getChildProcessMemory False example_exec 102 = Num (15360 * 1024)"
    by (simp_all add: getChildProcessMemory_def example_exec_def parse_10240 parse_15360)
  with z t e show ?thesis by simp
qed

end
